theory Spec2Isabelle
  imports Main
begin

section \<open>The GitHub Actions OIDC credential helper\<close>

text \<open>
  A shallow embedding of \<^verbatim>\<open>githubactionsoidc/githubactionsoidc.go\<close>: the four
  operations \<^verbatim>\<open>Add\<close>, \<^verbatim>\<open>Delete\<close>, \<^verbatim>\<open>Get\<close> and \<^verbatim>\<open>List\<close> of the helper.
  Go strings are byte sequences and so are HOL strings. Everything the operations do
  besides returning a value (writing the log, reading the clock, calling the token
  endpoint, closing the response body) is explicit state passing over a record
  \<open>world\<close>. What the Go standard library decides (the outcome of a file write, of
  \<^verbatim>\<open>url.Parse\<close>, of the HTTP round trip, the text of an error value) is a field of a
  record \<open>platform\<close>, a parameter of every operation.
\<close>

subsection \<open>Errors\<close>

text \<open>
  Values of Go's \<^verbatim>\<open>error\<close> interface. \<open>ErrCredentialsNotFound\<close> is what
  \<^verbatim>\<open>credentials.NewErrCredentialsNotFound()\<close> returns; the others are the errors of
  \<^verbatim>\<open>encoding/json\<close> (a syntax error, a type mismatch naming the JSON kind) and of
  the rest of the standard library (\<^verbatim>\<open>os\<close>, \<^verbatim>\<open>net/url\<close>, \<^verbatim>\<open>net/http\<close>, by message).
  \<open>None\<close> of type \<open>error option\<close> is the nil error.
\<close>

datatype error =
    ErrCredentialsNotFound
  | SyntaxError
  | UnmarshalTypeError string
  | LibraryError string

subsection \<open>JSON values and the decoding of the token response\<close>

datatype json =
    JNull
  | JBool bool
  | JNumber string
  | JString string
  | JArray "json list"
  | JObject "(string \<times> json) list"

text \<open>
  The response body as \<^verbatim>\<open>json.NewDecoder(resp.Body)\<close> reads it: either reading the
  first JSON value off the stream fails (end of input on an empty body, a syntax error,
  a failed read), or there is a first value, and the bytes after it are not looked at.
\<close>

datatype body = NoValue error | FirstValue json

text \<open>The anonymous struct \<^verbatim>\<open>struct { Value string `json:"value"` }\<close>.\<close>

record respBody =
  Value :: string

text \<open>The JSON kind that an \<^verbatim>\<open>UnmarshalTypeError\<close> names.\<close>

fun json_kind :: "json \<Rightarrow> string" where
  "json_kind JNull = ''null''"
| "json_kind (JBool b) = ''bool''"
| "json_kind (JNumber n) = ''number''"
| "json_kind (JString s) = ''string''"
| "json_kind (JArray xs) = ''array''"
| "json_kind (JObject ms) = ''object''"

text \<open>
  \<^verbatim>\<open>encoding/json\<close> matches a member name against the field name \<^verbatim>\<open>value\<close> exactly
  or, failing that, ignoring the case of ASCII letters.
\<close>

definition upper :: "char \<Rightarrow> char" where
  "upper c = (let n = (of_char c :: nat) in if 97 \<le> n \<and> n \<le> 122 then char_of (n - 32) else c)"

definition equalFold :: "string \<Rightarrow> string \<Rightarrow> bool" where
  "equalFold s t = (map upper s = map upper t)"

definition matches_field :: "string \<Rightarrow> bool" where
  "matches_field key = (key = ''value'' \<or> equalFold key ''value'')"

text \<open>
  Storing a JSON value into the string field: a string is stored, \<^verbatim>\<open>null\<close> leaves
  the field as it is, every other kind is a type mismatch (the field is left as it is).
\<close>

fun store_string :: "json \<Rightarrow> string \<Rightarrow> string \<times> error option" where
  "store_string (JString s) cur = (s, None)"
| "store_string JNull cur = (cur, None)"
| "store_string v cur = (cur, Some (UnmarshalTypeError (json_kind v)))"

text \<open>
  Decoding an object into the struct goes through the members in order: a member whose
  name matches the field is stored into it (so the last one wins), a member of any other
  name is skipped. A type mismatch does not stop the decoding; the first one is saved and
  returned at the end.
\<close>

fun object_members :: "(string \<times> json) list \<Rightarrow> respBody \<times> error option \<Rightarrow> respBody \<times> error option" where
  "object_members [] acc = acc"
| "object_members ((key, v) # ms) (rb, saved) =
     (if matches_field key then
        (let (s, e) = store_string v (Value rb)
         in object_members ms (rb\<lparr>Value := s\<rparr>, (case saved of None \<Rightarrow> e | Some x \<Rightarrow> Some x)))
      else object_members ms (rb, saved))"

text \<open>
  \<^verbatim>\<open>Decode(&respBody)\<close>: an object is decoded member by member, a top-level
  \<^verbatim>\<open>null\<close> leaves the struct as it is, every other top-level value is a type mismatch.
\<close>

fun Decode :: "body \<Rightarrow> respBody \<Rightarrow> respBody \<times> error option" where
  "Decode (NoValue err) rb = (rb, Some err)"
| "Decode (FirstValue (JObject ms)) rb = object_members ms (rb, None)"
| "Decode (FirstValue JNull) rb = (rb, None)"
| "Decode (FirstValue v) rb = (rb, Some (UnmarshalTypeError (json_kind v)))"

subsection \<open>Strings: \<^verbatim>\<open>strings.Contains\<close>, \<^verbatim>\<open>url.QueryEscape\<close>, \<^verbatim>\<open>%d\<close>\<close>

fun Contains :: "string \<Rightarrow> string \<Rightarrow> bool" where
  "Contains [] substr = (substr = [])"
| "Contains (c # s) substr = (take (length substr) (c # s) = substr \<or> Contains s substr)"

text \<open>
  \<^verbatim>\<open>shouldEscape(c, encodeQueryComponent)\<close>: letters, digits and the marks
  \<^verbatim>\<open>- _ . ~\<close> are kept, every other byte is escaped.
\<close>

definition shouldEscape :: "char \<Rightarrow> bool" where
  "shouldEscape c =
     (let n = (of_char c :: nat) in
      if (97 \<le> n \<and> n \<le> 122) \<or> (65 \<le> n \<and> n \<le> 90) \<or> (48 \<le> n \<and> n \<le> 57) then False
      else if c = CHR ''-'' \<or> c = CHR ''_'' \<or> c = CHR ''.'' \<or> c = CHR ''~'' then False
      else True)"

definition upperhex :: "nat \<Rightarrow> char" where
  "upperhex d = ''0123456789ABCDEF'' ! (d mod 16)"

text \<open>
  \<^verbatim>\<open>url.QueryEscape\<close>: a space becomes \<^verbatim>\<open>+\<close>, a byte to escape becomes \<^verbatim>\<open>%XX\<close>
  with upper-case hexadecimal digits.
\<close>

definition escape_byte :: "char \<Rightarrow> string" where
  "escape_byte c =
     (if c = CHR '' '' then ''+''
      else if shouldEscape c then
        [CHR ''%'', upperhex ((of_char c :: nat) div 16), upperhex ((of_char c :: nat) mod 16)]
      else [c])"

definition QueryEscape :: "string \<Rightarrow> string" where
  "QueryEscape s = concat (map escape_byte s)"

text \<open>The decimal text of an integer, as \<^verbatim>\<open>%d\<close> prints it.\<close>

fun utoa :: "nat \<Rightarrow> string" where
  "utoa n = (if n < 10 then [char_of (48 + n)] else utoa (n div 10) @ [char_of (48 + n mod 10)])"

definition itoa :: "int \<Rightarrow> string" where
  "itoa i = (if i < 0 then ''-'' @ utoa (nat (- i)) else utoa (nat i))"

subsection \<open>Requests, responses, events\<close>

text \<open>
  An \<^verbatim>\<open>http.Request\<close>: the method, the URL as the text it was parsed from, and the
  header. \<^verbatim>\<open>Header.Set\<close> replaces the values of a key; the two keys the helper sets
  are in canonical form already.
\<close>

record Request =
  Method :: string
  URL :: string
  Header :: "string \<rightharpoonup> string list"

definition Header_Set :: "Request \<Rightarrow> string \<Rightarrow> string \<Rightarrow> Request" where
  "Header_Set req key v = req\<lparr>Header := (Header req)(key \<mapsto> [v])\<rparr>"

record Response =
  StatusCode :: int
  Body :: body

text \<open>
  What an operation does to the outside, in order: a call of \<^verbatim>\<open>WriteString\<close> on the
  log file with its text (made also when the file is nil or the write fails), a call of
  \<^verbatim>\<open>http.DefaultClient.Do\<close>, the decoding of a response body, and the deferred
  \<^verbatim>\<open>resp.Body.Close()\<close>.
\<close>

datatype event =
    EvWrite string
  | EvDo Request
  | EvDecode
  | EvClose

fun http_calls :: "event list \<Rightarrow> Request list" where
  "http_calls [] = []"
| "http_calls (EvDo req # es) = req # http_calls es"
| "http_calls (e # es) = http_calls es"

fun decodes :: "event list \<Rightarrow> nat" where
  "decodes [] = 0"
| "decodes (EvDecode # es) = Suc (decodes es)"
| "decodes (e # es) = decodes es"

subsection \<open>The platform and the world\<close>

text \<open>
  The behaviour of the standard library, which an operation cannot change:
  \<^item> \<open>Now n\<close> is \<^verbatim>\<open>time.Now().UTC().Format(time.RFC3339)\<close> at the \<open>n\<close>-th reading of
    the clock;
  \<^item> \<open>WriteString f s\<close> is \<^verbatim>\<open>WriteString\<close> of \<^verbatim>\<open>os.File\<close> on an open file in state \<open>f\<close>:
    the file afterwards and the error returned;
  \<^item> \<open>url_Parse u\<close> is the error of \<^verbatim>\<open>url.Parse\<close>, the one way
    \<^verbatim>\<open>http.NewRequest("GET", u, nil)\<close> fails;
  \<^item> \<open>Do n req\<close> is \<^verbatim>\<open>http.DefaultClient.Do\<close> with the network in state \<open>n\<close>: an error
    or a response, and the network afterwards;
  \<^item> \<open>Error e\<close> is the text \<^verbatim>\<open>%v\<close> prints for an error value.
\<close>

record ('f, 'n) platform =
  Now :: "nat \<Rightarrow> string"
  WriteString :: "'f \<Rightarrow> string \<Rightarrow> 'f \<times> error option"
  url_Parse :: "string \<Rightarrow> error option"
  Do :: "'n \<Rightarrow> Request \<Rightarrow> (error + Response) \<times> 'n"
  Error :: "error \<Rightarrow> string"

text \<open>
  The state an operation runs in: the process environment, the field \<^verbatim>\<open>gh.LogFile\<close>
  of the helper together with the state of the file it points to (\<open>None\<close> is the nil
  pointer), the number of clock readings so far, the network, and the events so far.
\<close>

record ('f, 'n) world =
  environ :: "string \<rightharpoonup> string"
  LogFile :: "'f option"
  ticks :: nat
  net :: 'n
  trace :: "event list"

text \<open>\<^verbatim>\<open>os.Getenv\<close>: the value of the variable, empty when it is not set.\<close>

definition Getenv :: "('f, 'n) world \<Rightarrow> string \<Rightarrow> string" where
  "Getenv w key = (case environ w key of None \<Rightarrow> [] | Some v \<Rightarrow> v)"

text \<open>
  One log line: \<^verbatim>\<open>gh.LogFile.WriteString(fmt.Sprintf("%s: ...\n", time.Now()..., ...))\<close>.
  The clock is read once, the line is written, and both results of
  \<^verbatim>\<open>WriteString\<close> are dropped. On a nil file \<^verbatim>\<open>WriteString\<close> returns
  \<^verbatim>\<open>os.ErrInvalid\<close> and writes nothing.
\<close>

definition logf :: "('f, 'n) platform \<Rightarrow> string \<Rightarrow> ('f, 'n) world \<Rightarrow> ('f, 'n) world" where
  "logf p msg w =
     (let line = Now p (ticks w) @ '': '' @ msg @ [CHR 0x0A];
          w1 = w\<lparr>ticks := Suc (ticks w), trace := trace w @ [EvWrite line]\<rparr>
      in case LogFile w1 of
           None \<Rightarrow> w1
         | Some f \<Rightarrow> w1\<lparr>LogFile := Some (fst (WriteString p f line))\<rparr>)"

definition Body_Close :: "('f, 'n) world \<Rightarrow> ('f, 'n) world" where
  "Body_Close w = w\<lparr>trace := trace w @ [EvClose]\<rparr>"

text \<open>\<^verbatim>\<open>http.NewRequest(method, url, nil)\<close> with a valid method.\<close>

definition NewRequest :: "('f, 'n) platform \<Rightarrow> string \<Rightarrow> string \<Rightarrow> error + Request" where
  "NewRequest p method url =
     (case url_Parse p url of
        Some err \<Rightarrow> Inl err
      | None \<Rightarrow> Inr \<lparr>Method = method, URL = url, Header = Map.empty\<rparr>)"

subsection \<open>The four operations\<close>

record Credentials =
  ServerURL :: string
  Username :: string
  Secret :: string

text \<open>A run-time panic; the one \<^verbatim>\<open>Add\<close> can raise is the dereference of a nil pointer.\<close>

datatype panic = NilPointerDereference

text \<open>
  \<^verbatim>\<open>Add(creds *credentials.Credentials) error\<close>. The argument is a pointer, \<open>None\<close>
  being nil. The arguments of \<^verbatim>\<open>fmt.Sprintf\<close> are evaluated before anything is written:
  the clock is read, then \<^verbatim>\<open>creds.ServerURL\<close> is read, which panics on a nil pointer.
  On a pointer to a value the line is written and the nil error returned.
\<close>

definition Add :: "('f, 'n) platform \<Rightarrow> Credentials option \<Rightarrow> ('f, 'n) world
    \<Rightarrow> (panic + error option) \<times> ('f, 'n) world" where
  "Add p creds w =
     (case creds of
        None \<Rightarrow> (Inl NilPointerDereference, w\<lparr>ticks := Suc (ticks w)\<rparr>)
      | Some c \<Rightarrow> (Inr None, logf p (''Adding credentials for server: '' @ ServerURL c) w))"

definition Delete :: "('f, 'n) platform \<Rightarrow> string \<Rightarrow> ('f, 'n) world \<Rightarrow> error option \<times> ('f, 'n) world" where
  "Delete p serverURL w = (None, logf p (''Deleting credentials for server: '' @ serverURL) w)"

text \<open>
  \<^verbatim>\<open>List() (map[string]string, error)\<close> returns the nil map, here \<open>None\<close>; reading a
  key of a nil map finds nothing.
\<close>

type_synonym gomap = "(string \<rightharpoonup> string) option"

definition map_index :: "gomap \<Rightarrow> string \<Rightarrow> string option" where
  "map_index m key = (case m of None \<Rightarrow> None | Some f \<Rightarrow> f key)"

definition List :: "('f, 'n) platform \<Rightarrow> ('f, 'n) world \<Rightarrow> (gomap \<times> error option) \<times> ('f, 'n) world" where
  "List p w = ((None, None), logf p ''Listing credentials'' w)"

text \<open>
  \<^verbatim>\<open>Get(serverURL string) (string, string, error)\<close>, statement by statement. The
  deferred \<^verbatim>\<open>resp.Body.Close()\<close> runs last on every return that follows it.
\<close>

definition Get :: "('f, 'n) platform \<Rightarrow> string \<Rightarrow> ('f, 'n) world
    \<Rightarrow> (string \<times> string \<times> error option) \<times> ('f, 'n) world" where
  "Get p serverURL w0 =
     (let w1 = logf p (''Getting OIDC token: '' @ serverURL) w0;
          oidcRequestURL = Getenv w1 ''ACTIONS_ID_TOKEN_REQUEST_URL'';
          oidcRequestToken = Getenv w1 ''ACTIONS_ID_TOKEN_REQUEST_TOKEN''
      in
      if oidcRequestURL = [] \<or> oidcRequestToken = [] then
        (([], [], Some ErrCredentialsNotFound), logf p ''Missing OIDC request URL or token'' w1)
      else
        (let oidcAudience = Getenv w1 ''ACTIONS_ID_TOKEN_REQUEST_AUDIENCE'';
             (oidcRequestURL, w2) =
               (if oidcAudience \<noteq> [] then
                  (let separator = (if Contains oidcRequestURL ''?'' then ''&'' else ''?'');
                       oidcRequestURL = oidcRequestURL @ separator @ ''audience='' @ QueryEscape oidcAudience
                   in (oidcRequestURL,
                       logf p (''Added OIDC audience to request URL: '' @ oidcRequestURL) w1))
                else (oidcRequestURL, w1))
         in
         (case NewRequest p ''GET'' oidcRequestURL of
            Inl err \<Rightarrow>
              (([], [], Some ErrCredentialsNotFound),
               logf p (''Failed to create HTTP request: '' @ Error p err) w2)
          | Inr req0 \<Rightarrow>
              (let req1 = Header_Set req0 ''Authorization'' (''Bearer '' @ oidcRequestToken);
                   req = Header_Set req1 ''User-Agent'' ''Docker-Credential-Helper-GitHubActionsOIDC'';
                   (result, n) = Do p (net w2) req;
                   w3 = w2\<lparr>net := n, trace := trace w2 @ [EvDo req]\<rparr>
               in
               (case result of
                  Inl err \<Rightarrow>
                    (([], [], Some ErrCredentialsNotFound),
                     logf p (''Failed to send HTTP request: '' @ Error p err) w3)
                | Inr resp \<Rightarrow>
                    (if StatusCode resp \<noteq> 200 then
                       (([], [], Some ErrCredentialsNotFound),
                        Body_Close
                          (logf p (''Received non-OK HTTP status: '' @ itoa (StatusCode resp)) w3))
                     else
                       (let (respBody, derr) = Decode (Body resp) \<lparr>Value = []\<rparr>;
                            w4 = w3\<lparr>trace := trace w3 @ [EvDecode]\<rparr>
                        in
                        (case derr of
                           Some err \<Rightarrow>
                             (([], [], Some ErrCredentialsNotFound),
                              Body_Close
                                (logf p (''Failed to decode HTTP response: '' @ Error p err) w4))
                         | None \<Rightarrow>
                             ((''github_actions'', Value respBody, None),
                              Body_Close
                                (logf p (''Successfully retrieved OIDC token: '' @ Value respBody)
                                   w4))))))))))"

subsection \<open>The request that \<^verbatim>\<open>Get\<close> builds\<close>

text \<open>
  For the statements below: \<open>NotFound\<close> abbreviates the three values every failure path
  returns; \<open>request_url\<close> and \<open>token_request\<close> are the URL and the request that lines
  36 to 62 of \<^verbatim>\<open>Get\<close> build, as functions of the environment. Lemma \<open>Get_calls\<close>
  proves that \<open>token_request\<close> is the request \<^verbatim>\<open>Get\<close> sends.
\<close>

abbreviation NotFound :: "string \<times> string \<times> error option" where
  "NotFound \<equiv> ([], [], Some ErrCredentialsNotFound)"

definition request_url :: "('f, 'n) world \<Rightarrow> string" where
  "request_url w =
     (if Getenv w ''ACTIONS_ID_TOKEN_REQUEST_AUDIENCE'' = []
      then Getenv w ''ACTIONS_ID_TOKEN_REQUEST_URL''
      else Getenv w ''ACTIONS_ID_TOKEN_REQUEST_URL''
           @ (if Contains (Getenv w ''ACTIONS_ID_TOKEN_REQUEST_URL'') ''?'' then ''&'' else ''?'')
           @ ''audience='' @ QueryEscape (Getenv w ''ACTIONS_ID_TOKEN_REQUEST_AUDIENCE''))"

definition token_request :: "('f, 'n) world \<Rightarrow> Request" where
  "token_request w =
     \<lparr>Method = ''GET'', URL = request_url w,
      Header = [''Authorization'' \<mapsto> [''Bearer '' @ Getenv w ''ACTIONS_ID_TOKEN_REQUEST_TOKEN''],
                ''User-Agent'' \<mapsto> [''Docker-Credential-Helper-GitHubActionsOIDC'']]\<rparr>"

subsection \<open>Concrete platforms and worlds\<close>

text \<open>
  A platform to run the operations on: a log file that keeps the lines written to it,
  a clock that stands still, a \<^verbatim>\<open>url.Parse\<close> that rejects the control character
  DEL, and the endpoint given.
\<close>

fun example_Error :: "error \<Rightarrow> string" where
  "example_Error ErrCredentialsNotFound = ''credentials not found in native keychain''"
| "example_Error SyntaxError = ''invalid character''"
| "example_Error (UnmarshalTypeError k) = ''json: cannot unmarshal '' @ k"
| "example_Error (LibraryError m) = m"

definition example_platform ::
    "(nat \<Rightarrow> Request \<Rightarrow> (error + Response) \<times> nat) \<Rightarrow> (string list, nat) platform" where
  "example_platform endpoint =
     \<lparr>Now = (\<lambda>n. ''2025-01-01T00:00:00Z''),
      WriteString = (\<lambda>f s. (f @ [s], None)),
      url_Parse = (\<lambda>u. if CHR 0x7F \<in> set u
                        then Some (LibraryError ''net/url: invalid control character in URL'')
                        else None),
      Do = endpoint,
      Error = example_Error\<rparr>"

text \<open>A log file on which every write fails and nothing is written.\<close>

definition failing_WriteString :: "string list \<Rightarrow> string \<Rightarrow> string list \<times> error option" where
  "failing_WriteString f s = (f, Some (LibraryError ''write: no space left on device''))"

text \<open>An endpoint that answers every request the same way.\<close>

definition reply :: "error + Response \<Rightarrow> nat \<Rightarrow> Request \<Rightarrow> (error + Response) \<times> nat" where
  "reply r n req = (r, Suc n)"

text \<open>
  The mock server of the test \<^verbatim>\<open>successful token retrieval\<close>: it answers 401 to a
  wrong \<^verbatim>\<open>Authorization\<close> header, 400 to a wrong \<^verbatim>\<open>User-Agent\<close>, both with a body
  that is not JSON, and otherwise 200 with the token.
\<close>

definition mock_server :: "string \<Rightarrow> nat \<Rightarrow> Request \<Rightarrow> (error + Response) \<times> nat" where
  "mock_server mockToken n r =
     (if Header r ''Authorization'' = Some [''Bearer test-token'']
      then (if Header r ''User-Agent'' = Some [''Docker-Credential-Helper-GitHubActionsOIDC'']
            then Inr \<lparr>StatusCode = 200,
                      Body = FirstValue (JObject [(''value'', JString mockToken)])\<rparr>
            else Inr \<lparr>StatusCode = 400, Body = NoValue SyntaxError\<rparr>)
      else Inr \<lparr>StatusCode = 401, Body = NoValue SyntaxError\<rparr>,
      Suc n)"

definition example_world :: "(string \<rightharpoonup> string) \<Rightarrow> (string list, nat) world" where
  "example_world env = \<lparr>environ = env, LogFile = Some [], ticks = 0, net = 0, trace = []\<rparr>"

text \<open>The environment of the tests, without and with an audience.\<close>

definition test_env :: "string \<rightharpoonup> string" where
  "test_env = [''ACTIONS_ID_TOKEN_REQUEST_URL'' \<mapsto> ''http://127.0.0.1:8080'',
               ''ACTIONS_ID_TOKEN_REQUEST_TOKEN'' \<mapsto> ''test-token'']"

definition audience_env :: "string \<rightharpoonup> string" where
  "audience_env = test_env(''ACTIONS_ID_TOKEN_REQUEST_AUDIENCE'' \<mapsto> ''https://registry.example.com'')"

section \<open>Properties\<close>

subsection \<open>The log line and the events\<close>

lemma http_calls_append: "http_calls (xs @ ys) = http_calls xs @ http_calls ys"
  by (induction xs rule: http_calls.induct) simp_all

lemma decodes_append: "decodes (xs @ ys) = decodes xs + decodes ys"
  by (induction xs rule: decodes.induct) simp_all

lemma environ_logf: "environ (logf p msg w) = environ w"
  by (simp add: logf_def Let_def split: option.split)

lemma net_logf: "net (logf p msg w) = net w"
  by (simp add: logf_def Let_def split: option.split)

lemma trace_logf:
  "trace (logf p msg w) = trace w @ [EvWrite (Now p (ticks w) @ '': '' @ msg @ [CHR 0x0A])]"
  by (simp add: logf_def Let_def split: option.split)

lemma Getenv_logf: "Getenv (logf p msg w) key = Getenv w key"
  by (simp add: Getenv_def environ_logf)

lemma http_calls_logf: "http_calls (trace (logf p msg w)) = http_calls (trace w)"
  by (simp add: trace_logf http_calls_append)

lemma decodes_logf: "decodes (trace (logf p msg w)) = decodes (trace w)"
  by (simp add: trace_logf decodes_append)

lemma Contains_char: "Contains s [c] \<longleftrightarrow> c \<in> set s"
  by (induction s) auto

lemma Getenv_empty: "Getenv w key = [] \<longleftrightarrow> environ w key \<in> {None, Some []}"
  by (simp add: Getenv_def split: option.split)

subsection \<open>The paths of \<^verbatim>\<open>Get\<close>\<close>

lemma Get_missing:
  assumes "Getenv w ''ACTIONS_ID_TOKEN_REQUEST_URL'' = [] \<or> Getenv w ''ACTIONS_ID_TOKEN_REQUEST_TOKEN'' = []"
  shows "fst (Get p serverURL w) = NotFound"
    and "net (snd (Get p serverURL w)) = net w"
    and "environ (snd (Get p serverURL w)) = environ w"
    and "http_calls (trace (snd (Get p serverURL w))) = http_calls (trace w)"
    and "decodes (trace (snd (Get p serverURL w))) = decodes (trace w)"
  using assms
  by (simp_all add: Get_def Let_def Getenv_logf net_logf environ_logf http_calls_logf decodes_logf)

lemma Get_unsent:
  assumes B: "Getenv w ''ACTIONS_ID_TOKEN_REQUEST_URL'' \<noteq> []"
      and tok: "Getenv w ''ACTIONS_ID_TOKEN_REQUEST_TOKEN'' \<noteq> []"
      and parse: "url_Parse p (request_url w) = Some e"
  shows "fst (Get p serverURL w) = NotFound"
    and "net (snd (Get p serverURL w)) = net w"
    and "environ (snd (Get p serverURL w)) = environ w"
    and "http_calls (trace (snd (Get p serverURL w))) = http_calls (trace w)"
    and "decodes (trace (snd (Get p serverURL w))) = decodes (trace w)"
proof -
  note defs = Get_def Let_def Getenv_logf net_logf environ_logf NewRequest_def
    http_calls_logf decodes_logf request_url_def
  have "fst (Get p serverURL w) = NotFound
      \<and> net (snd (Get p serverURL w)) = net w
      \<and> environ (snd (Get p serverURL w)) = environ w
      \<and> http_calls (trace (snd (Get p serverURL w))) = http_calls (trace w)
      \<and> decodes (trace (snd (Get p serverURL w))) = decodes (trace w)"
  proof (cases "Getenv w ''ACTIONS_ID_TOKEN_REQUEST_AUDIENCE'' = []")
    case True
    with B tok parse show ?thesis by (simp add: defs)
  next
    case False
    with B tok parse show ?thesis by (simp add: defs)
  qed
  then show "fst (Get p serverURL w) = NotFound"
    and "net (snd (Get p serverURL w)) = net w"
    and "environ (snd (Get p serverURL w)) = environ w"
    and "http_calls (trace (snd (Get p serverURL w))) = http_calls (trace w)"
    and "decodes (trace (snd (Get p serverURL w))) = decodes (trace w)"
    by simp_all
qed


lemma Get_sent:
  assumes B: "Getenv w ''ACTIONS_ID_TOKEN_REQUEST_URL'' \<noteq> []"
      and tok: "Getenv w ''ACTIONS_ID_TOKEN_REQUEST_TOKEN'' \<noteq> []"
      and parse: "url_Parse p (request_url w) = None"
      and do: "Do p (net w) (token_request w) = (result, n)"
  shows "fst (Get p serverURL w) =
           (case result of
              Inl e \<Rightarrow> NotFound
            | Inr resp \<Rightarrow>
                if StatusCode resp \<noteq> 200 then NotFound
                else (case snd (Decode (Body resp) \<lparr>Value = []\<rparr>) of
                        Some e \<Rightarrow> NotFound
                      | None \<Rightarrow> (''github_actions'',
                                 Value (fst (Decode (Body resp) \<lparr>Value = []\<rparr>)), None)))"
      (is ?res)
    and "net (snd (Get p serverURL w)) = n" (is ?net)
    and "environ (snd (Get p serverURL w)) = environ w" (is ?env)
    and "http_calls (trace (snd (Get p serverURL w))) = http_calls (trace w) @ [token_request w]"
      (is ?calls)
    and "decodes (trace (snd (Get p serverURL w))) =
           decodes (trace w) + (case result of Inl e \<Rightarrow> 0
                                | Inr resp \<Rightarrow> if StatusCode resp \<noteq> 200 then 0 else 1)"
      (is ?decodes)
proof -
  note defs = Get_def Let_def Getenv_logf net_logf environ_logf NewRequest_def
    Header_Set_def Body_Close_def http_calls_logf decodes_logf http_calls_append decodes_append
    request_url_def token_request_def
  have "?res \<and> ?net \<and> ?env \<and> ?calls \<and> ?decodes"
  proof (cases "Getenv w ''ACTIONS_ID_TOKEN_REQUEST_AUDIENCE'' = []")
    case True
    note aud = True
    show ?thesis
    proof (cases result)
      case (Inl e)
      with B tok aud parse do show ?thesis by (simp add: defs)
    next
      case (Inr resp)
      note r = Inr
      show ?thesis
      proof (cases "StatusCode resp = 200")
        case False
        with B tok aud parse do r show ?thesis by (simp add: defs)
      next
        case True
        with B tok aud parse do r show ?thesis
          by (cases "Decode (Body resp) \<lparr>Value = []\<rparr>") (simp add: defs split: option.split)
      qed
    qed
  next
    case False
    note aud = False
    show ?thesis
    proof (cases result)
      case (Inl e)
      with B tok aud parse do show ?thesis by (simp add: defs)
    next
      case (Inr resp)
      note r = Inr
      show ?thesis
      proof (cases "StatusCode resp = 200")
        case False
        with B tok aud parse do r show ?thesis by (simp add: defs)
      next
        case True
        with B tok aud parse do r show ?thesis
          by (cases "Decode (Body resp) \<lparr>Value = []\<rparr>") (simp add: defs split: option.split)
      qed
    qed
  qed
  then show ?res and ?net and ?env and ?calls and ?decodes
    by simp_all
qed

lemma Get_fst:
  "fst (Get p serverURL w) =
     (if Getenv w ''ACTIONS_ID_TOKEN_REQUEST_URL'' = [] \<or> Getenv w ''ACTIONS_ID_TOKEN_REQUEST_TOKEN'' = []
      then NotFound
      else (case url_Parse p (request_url w) of
              Some e \<Rightarrow> NotFound
            | None \<Rightarrow>
               (case fst (Do p (net w) (token_request w)) of
                  Inl e \<Rightarrow> NotFound
                | Inr resp \<Rightarrow>
                    if StatusCode resp \<noteq> 200 then NotFound
                    else (case snd (Decode (Body resp) \<lparr>Value = []\<rparr>) of
                            Some e \<Rightarrow> NotFound
                          | None \<Rightarrow> (''github_actions'',
                                     Value (fst (Decode (Body resp) \<lparr>Value = []\<rparr>)), None)))))"
proof (cases "Getenv w ''ACTIONS_ID_TOKEN_REQUEST_URL'' = [] \<or> Getenv w ''ACTIONS_ID_TOKEN_REQUEST_TOKEN'' = []")
  case True
  then show ?thesis using Get_missing(1)[OF True] by simp
next
  case False
  then have B: "Getenv w ''ACTIONS_ID_TOKEN_REQUEST_URL'' \<noteq> []"
    and tok: "Getenv w ''ACTIONS_ID_TOKEN_REQUEST_TOKEN'' \<noteq> []" by simp_all
  show ?thesis
  proof (cases "url_Parse p (request_url w)")
    case (Some e)
    show ?thesis using Get_unsent(1)[OF B tok Some] False Some by simp
  next
    case None
    obtain result n where do: "Do p (net w) (token_request w) = (result, n)"
      by (cases "Do p (net w) (token_request w)")
    show ?thesis using Get_sent(1)[OF B tok None do] False None do by simp
  qed
qed

text \<open>What a run that sent a request says about the run.\<close>

lemma Get_calls:
  "http_calls (trace (snd (Get p serverURL w))) =
     http_calls (trace w) @
       (if Getenv w ''ACTIONS_ID_TOKEN_REQUEST_URL'' = [] \<or> Getenv w ''ACTIONS_ID_TOKEN_REQUEST_TOKEN'' = []
        then []
        else (case url_Parse p (request_url w) of Some e \<Rightarrow> [] | None \<Rightarrow> [token_request w]))"
proof (cases "Getenv w ''ACTIONS_ID_TOKEN_REQUEST_URL'' = [] \<or> Getenv w ''ACTIONS_ID_TOKEN_REQUEST_TOKEN'' = []")
  case True
  then show ?thesis using Get_missing(4)[OF True] by simp
next
  case False
  then have B: "Getenv w ''ACTIONS_ID_TOKEN_REQUEST_URL'' \<noteq> []"
    and tok: "Getenv w ''ACTIONS_ID_TOKEN_REQUEST_TOKEN'' \<noteq> []" by simp_all
  show ?thesis
  proof (cases "url_Parse p (request_url w)")
    case (Some e)
    show ?thesis using Get_unsent(4)[OF B tok Some] False Some by simp
  next
    case None
    obtain result n where do: "Do p (net w) (token_request w) = (result, n)"
      by (cases "Do p (net w) (token_request w)")
    show ?thesis using Get_sent(4)[OF B tok None do] False None by simp
  qed
qed

lemma Get_sentD:
  assumes sent: "http_calls (trace (snd (Get p serverURL w))) = http_calls (trace w) @ [req]"
  shows "req = token_request w"
    and "Getenv w ''ACTIONS_ID_TOKEN_REQUEST_URL'' \<noteq> []"
    and "Getenv w ''ACTIONS_ID_TOKEN_REQUEST_TOKEN'' \<noteq> []"
    and "url_Parse p (request_url w) = None"
proof -
  have "req = token_request w
      \<and> Getenv w ''ACTIONS_ID_TOKEN_REQUEST_URL'' \<noteq> []
      \<and> Getenv w ''ACTIONS_ID_TOKEN_REQUEST_TOKEN'' \<noteq> []
      \<and> url_Parse p (request_url w) = None"
    using sent unfolding Get_calls by (simp split: if_splits option.splits)
  then show "req = token_request w"
    and "Getenv w ''ACTIONS_ID_TOKEN_REQUEST_URL'' \<noteq> []"
    and "Getenv w ''ACTIONS_ID_TOKEN_REQUEST_TOKEN'' \<noteq> []"
    and "url_Parse p (request_url w) = None"
    by simp_all
qed

lemma Get_net:
  "net (snd (Get p serverURL w)) =
     (if Getenv w ''ACTIONS_ID_TOKEN_REQUEST_URL'' = [] \<or> Getenv w ''ACTIONS_ID_TOKEN_REQUEST_TOKEN'' = []
      then net w
      else (case url_Parse p (request_url w) of
              Some e \<Rightarrow> net w
            | None \<Rightarrow> snd (Do p (net w) (token_request w))))"
proof (cases "Getenv w ''ACTIONS_ID_TOKEN_REQUEST_URL'' = [] \<or> Getenv w ''ACTIONS_ID_TOKEN_REQUEST_TOKEN'' = []")
  case True
  then show ?thesis using Get_missing(2)[OF True] by simp
next
  case False
  then have B: "Getenv w ''ACTIONS_ID_TOKEN_REQUEST_URL'' \<noteq> []"
    and tok: "Getenv w ''ACTIONS_ID_TOKEN_REQUEST_TOKEN'' \<noteq> []" by simp_all
  show ?thesis
  proof (cases "url_Parse p (request_url w)")
    case (Some e)
    show ?thesis using Get_unsent(2)[OF B tok Some] False Some by simp
  next
    case None
    obtain result n where do: "Do p (net w) (token_request w) = (result, n)"
      by (cases "Do p (net w) (token_request w)")
    show ?thesis using Get_sent(2)[OF B tok None do] False None do by simp
  qed
qed

lemma Get_environ: "environ (snd (Get p serverURL w)) = environ w"
proof (cases "Getenv w ''ACTIONS_ID_TOKEN_REQUEST_URL'' = [] \<or> Getenv w ''ACTIONS_ID_TOKEN_REQUEST_TOKEN'' = []")
  case True
  then show ?thesis using Get_missing(3)[OF True] by simp
next
  case False
  then have B: "Getenv w ''ACTIONS_ID_TOKEN_REQUEST_URL'' \<noteq> []"
    and tok: "Getenv w ''ACTIONS_ID_TOKEN_REQUEST_TOKEN'' \<noteq> []" by simp_all
  show ?thesis
  proof (cases "url_Parse p (request_url w)")
    case (Some e)
    show ?thesis using Get_unsent(3)[OF B tok Some] by simp
  next
    case None
    obtain result n where do: "Do p (net w) (token_request w) = (result, n)"
      by (cases "Do p (net w) (token_request w)")
    show ?thesis using Get_sent(3)[OF B tok None do] by simp
  qed
qed

subsection \<open>Decoding an object\<close>

lemma object_members_saved: "snd (object_members ms (rb, Some e)) = Some e"
  by (induction ms arbitrary: rb) (auto split: prod.split)

lemma object_members_mismatch:
  assumes "(key, v) \<in> set ms" and "matches_field key" and "v \<notin> range JString" and "v \<noteq> JNull"
  shows "snd (object_members ms (rb, saved)) \<noteq> None"
  using assms
proof (induction ms arbitrary: rb saved)
  case Nil
  then show ?case by simp
next
  case (Cons m ms)
  obtain k x where m: "m = (k, x)" by (cases m)
  show ?case
  proof (cases "m = (key, v)")
    case True
    have "\<exists>e. store_string v (Value rb) = (Value rb, Some e)"
      using Cons.prems(3,4) by (cases v) auto
    then obtain e where e: "store_string v (Value rb) = (Value rb, Some e)" ..
    show ?thesis
      using True Cons.prems(2) e
      by (cases saved) (simp_all add: object_members_saved)
  next
    case False
    then have "(key, v) \<in> set ms" using Cons.prems(1) by simp
    then show ?thesis
      using Cons.IH Cons.prems(2,3,4) m
      by (simp split: prod.split)
  qed
qed

lemma object_members_no_field:
  assumes "\<forall>m \<in> set ms. \<not> matches_field (fst m)"
  shows "object_members ms (rb, saved) = (rb, saved)"
  using assms by (induction ms) auto

subsection \<open>Running the examples\<close>

lemmas example_defs = example_platform_def example_world_def test_env_def audience_env_def
  Getenv_def reply_def mock_server_def request_url_def token_request_def

subsection \<open>Claims about \<^verbatim>\<open>Get\<close>\<close>

text \<open>
  Claim C1. In every environment where \<^verbatim>\<open>ACTIONS_ID_TOKEN_REQUEST_URL\<close> and
  \<^verbatim>\<open>ACTIONS_ID_TOKEN_REQUEST_TOKEN\<close> are non-empty: when the request is constructed and
  the exchange returns status 200 with the body \<^verbatim>\<open>{"value": "T"}\<close>, \<^verbatim>\<open>Get\<close> sends the
  request and returns the user name \<^verbatim>\<open>github_actions\<close>, the secret \<open>T\<close> and the nil
  error.
\<close>

theorem Get_success:
  assumes url: "Getenv w ''ACTIONS_ID_TOKEN_REQUEST_URL'' \<noteq> []"
      and token: "Getenv w ''ACTIONS_ID_TOKEN_REQUEST_TOKEN'' \<noteq> []"
      and parse: "url_Parse p (request_url w) = None"
      and resp: "fst (Do p (net w) (token_request w)) =
                   Inr \<lparr>StatusCode = 200, Body = FirstValue (JObject [(''value'', JString T)])\<rparr>"
  shows "fst (Get p serverURL w) = (''github_actions'', T, None)
       \<and> http_calls (trace (snd (Get p serverURL w))) = http_calls (trace w) @ [token_request w]"
proof -
  obtain n where do: "Do p (net w) (token_request w) =
      (Inr \<lparr>StatusCode = 200, Body = FirstValue (JObject [(''value'', JString T)])\<rparr>, n)"
    using resp by (cases "Do p (net w) (token_request w)") simp
  show ?thesis
    using Get_sent(1,4)[OF url token parse do]
    by (simp add: matches_field_def)
qed

theorem Get_success_witness:
  "fst (Get (example_platform (mock_server ''eyJhbGciOiJSUzI1NiIsInR5cCI6IkpXVCJ9.test.token''))
       ''https://registry.example.com'' (example_world test_env))
     = (''github_actions'', ''eyJhbGciOiJSUzI1NiIsInR5cCI6IkpXVCJ9.test.token'', None)
   \<and> http_calls (trace (snd (Get
         (example_platform (mock_server ''eyJhbGciOiJSUzI1NiIsInR5cCI6IkpXVCJ9.test.token''))
         ''https://registry.example.com'' (example_world test_env))))
     = [\<lparr>Method = ''GET'', URL = ''http://127.0.0.1:8080'',
         Header = [''Authorization'' \<mapsto> [''Bearer test-token''],
                   ''User-Agent'' \<mapsto> [''Docker-Credential-Helper-GitHubActionsOIDC'']]\<rparr>]
   \<and> fst (Get (example_platform (mock_server ''eyJhbGciOiJSUzI1NiIsInR5cCI6IkpXVCJ9.test.audience.token''))
       ''https://registry.example.com'' (example_world audience_env))
     = (''github_actions'', ''eyJhbGciOiJSUzI1NiIsInR5cCI6IkpXVCJ9.test.audience.token'', None)"
proof -
  let ?u = "''https://registry.example.com''"
  let ?p = "example_platform (mock_server ''eyJhbGciOiJSUzI1NiIsInR5cCI6IkpXVCJ9.test.token'')"
  let ?w = "example_world test_env"
  let ?p' = "example_platform (mock_server ''eyJhbGciOiJSUzI1NiIsInR5cCI6IkpXVCJ9.test.audience.token'')"
  let ?w' = "example_world audience_env"
  have url: "Getenv ?w ''ACTIONS_ID_TOKEN_REQUEST_URL'' \<noteq> []"
    and token: "Getenv ?w ''ACTIONS_ID_TOKEN_REQUEST_TOKEN'' \<noteq> []"
    and parse: "url_Parse ?p (request_url ?w) = None"
    and resp: "fst (Do ?p (net ?w) (token_request ?w)) =
      Inr \<lparr>StatusCode = 200,
           Body = FirstValue (JObject [(''value'', JString ''eyJhbGciOiJSUzI1NiIsInR5cCI6IkpXVCJ9.test.token'')])\<rparr>"
    by (simp_all add: example_defs)
  have request: "token_request ?w = \<lparr>Method = ''GET'', URL = ''http://127.0.0.1:8080'',
         Header = [''Authorization'' \<mapsto> [''Bearer test-token''],
                   ''User-Agent'' \<mapsto> [''Docker-Credential-Helper-GitHubActionsOIDC'']]\<rparr>"
    and before: "trace ?w = []"
    by (simp_all add: example_defs)
  have escaped: "QueryEscape ''https://registry.example.com'' = ''https%3A%2F%2Fregistry.example.com''"
    by (simp add: QueryEscape_def escape_byte_def shouldEscape_def upperhex_def)
  have url': "Getenv ?w' ''ACTIONS_ID_TOKEN_REQUEST_URL'' \<noteq> []"
    and token': "Getenv ?w' ''ACTIONS_ID_TOKEN_REQUEST_TOKEN'' \<noteq> []"
    and parse': "url_Parse ?p' (request_url ?w') = None"
    and resp': "fst (Do ?p' (net ?w') (token_request ?w')) =
      Inr \<lparr>StatusCode = 200,
           Body = FirstValue (JObject [(''value'', JString ''eyJhbGciOiJSUzI1NiIsInR5cCI6IkpXVCJ9.test.audience.token'')])\<rparr>"
    by (simp_all add: example_defs escaped)
  show ?thesis
    using Get_success[OF url token parse resp, of ?u] Get_success[OF url' token' parse' resp', of ?u]
      request before
    by simp
qed

text \<open>
  Claim C3. When \<^verbatim>\<open>ACTIONS_ID_TOKEN_REQUEST_URL\<close> or
  \<^verbatim>\<open>ACTIONS_ID_TOKEN_REQUEST_TOKEN\<close> is empty or not set, \<^verbatim>\<open>Get\<close> returns
  \<^verbatim>\<open>CredentialsNotFound\<close> with two empty strings and makes no HTTP call: the calls in
  the trace and the state of the network are as before.
\<close>

theorem Get_missing_environment:
  assumes "environ w ''ACTIONS_ID_TOKEN_REQUEST_URL'' \<in> {None, Some []}
         \<or> environ w ''ACTIONS_ID_TOKEN_REQUEST_TOKEN'' \<in> {None, Some []}"
  shows "fst (Get p serverURL w) = NotFound
       \<and> http_calls (trace (snd (Get p serverURL w))) = http_calls (trace w)
       \<and> net (snd (Get p serverURL w)) = net w"
proof -
  have missing: "Getenv w ''ACTIONS_ID_TOKEN_REQUEST_URL'' = []
      \<or> Getenv w ''ACTIONS_ID_TOKEN_REQUEST_TOKEN'' = []"
    using assms unfolding Getenv_empty .
  show ?thesis
    using Get_missing(1,2,4)[OF missing] by simp
qed

theorem Get_missing_environment_witness:
  "environ (example_world [''ACTIONS_ID_TOKEN_REQUEST_TOKEN'' \<mapsto> ''test-token''])
       ''ACTIONS_ID_TOKEN_REQUEST_URL'' = None
   \<and> fst (Get (example_platform (mock_server ''T'')) ''https://registry.example.com''
         (example_world [''ACTIONS_ID_TOKEN_REQUEST_TOKEN'' \<mapsto> ''test-token''])) = NotFound
   \<and> http_calls (trace (snd (Get (example_platform (mock_server ''T''))
         ''https://registry.example.com''
         (example_world [''ACTIONS_ID_TOKEN_REQUEST_TOKEN'' \<mapsto> ''test-token''])))) = []
   \<and> net (snd (Get (example_platform (mock_server ''T'')) ''https://registry.example.com''
         (example_world [''ACTIONS_ID_TOKEN_REQUEST_TOKEN'' \<mapsto> ''test-token'']))) = 0"
proof -
  let ?w = "example_world [''ACTIONS_ID_TOKEN_REQUEST_TOKEN'' \<mapsto> ''test-token'']"
  have absent: "environ ?w ''ACTIONS_ID_TOKEN_REQUEST_URL'' = None"
    by (simp add: example_world_def)
  then have missing: "environ ?w ''ACTIONS_ID_TOKEN_REQUEST_URL'' \<in> {None, Some []}
      \<or> environ ?w ''ACTIONS_ID_TOKEN_REQUEST_TOKEN'' \<in> {None, Some []}"
    by simp
  show ?thesis
    using absent
      Get_missing_environment[OF missing, of "example_platform (mock_server ''T'')"
        "''https://registry.example.com''"]
    by (simp add: example_world_def)
qed

text \<open>
  Claim C5. When the exchange returns a response whose status is not 200, whatever its
  body, \<^verbatim>\<open>Get\<close> returns \<^verbatim>\<open>CredentialsNotFound\<close> and the body is not decoded: the
  trace has no new decoding event.
\<close>

theorem Get_non_200:
  assumes sent: "http_calls (trace (snd (Get p serverURL w))) = http_calls (trace w) @ [req]"
      and resp: "fst (Do p (net w) req) = Inr resp"
      and status: "StatusCode resp \<noteq> 200"
  shows "fst (Get p serverURL w) = NotFound
       \<and> decodes (trace (snd (Get p serverURL w))) = decodes (trace w)"
proof -
  note run = Get_sentD[OF sent]
  obtain n where do: "Do p (net w) (token_request w) = (Inr resp, n)"
    using resp run(1) by (cases "Do p (net w) (token_request w)") simp
  show ?thesis
    using Get_sent(1,5)[OF run(2) run(3) run(4) do] status by simp
qed

theorem Get_non_200_witness:
  "StatusCode \<lparr>StatusCode = 401, Body = FirstValue (JObject [(''value'', JString ''T'')])\<rparr> \<noteq> 200
   \<and> fst (Get (example_platform
            (reply (Inr \<lparr>StatusCode = 401, Body = FirstValue (JObject [(''value'', JString ''T'')])\<rparr>)))
         ''https://registry.example.com'' (example_world test_env)) = NotFound
   \<and> decodes (trace (snd (Get (example_platform
            (reply (Inr \<lparr>StatusCode = 401, Body = FirstValue (JObject [(''value'', JString ''T'')])\<rparr>)))
         ''https://registry.example.com'' (example_world test_env)))) = 0"
proof -
  let ?resp = "\<lparr>StatusCode = 401, Body = FirstValue (JObject [(''value'', JString ''T'')])\<rparr>"
  let ?p = "example_platform (reply (Inr ?resp))"
  let ?w = "example_world test_env"
  have sent: "http_calls (trace (snd (Get ?p ''https://registry.example.com'' ?w)))
      = http_calls (trace ?w) @ [token_request ?w]"
    by (simp add: Get_calls example_defs)
  have resp: "fst (Do ?p (net ?w) (token_request ?w)) = Inr ?resp"
    by (simp add: example_defs)
  have status: "StatusCode ?resp \<noteq> 200"
    by simp
  show ?thesis
    using status Get_non_200[OF sent resp status]
    by (simp add: example_world_def)
qed

text \<open>
  Claim C2, as stated, fails: a 200 response whose body is the object \<^verbatim>\<open>{}\<close>, with no
  \<^verbatim>\<open>value\<close> member, decodes without error, and \<^verbatim>\<open>Get\<close> returns success with an
  empty secret.
\<close>

theorem Get_empty_object_counterexample:
  "fst (Get (example_platform (reply (Inr \<lparr>StatusCode = 200, Body = FirstValue (JObject [])\<rparr>)))
          ''https://registry.example.com'' (example_world test_env))
     = (''github_actions'', [], None)"
  by (simp add: Get_fst example_defs)

text \<open>
  Claim C2, amended. For a 200 response whose body is a JSON value \<open>j\<close>: \<^verbatim>\<open>Get\<close> returns
  \<^verbatim>\<open>CredentialsNotFound\<close> when \<open>j\<close> is neither an object nor \<^verbatim>\<open>null\<close>, and when \<open>j\<close>
  is an object with a member named \<^verbatim>\<open>value\<close> (the case of letters ignored) whose value
  is neither a string nor \<^verbatim>\<open>null\<close>. An object with no member of that name is not a
  decoding failure: \<^verbatim>\<open>Get\<close> returns \<^verbatim>\<open>github_actions\<close>, the empty secret and the nil
  error.
\<close>

theorem Get_schema_mismatch:
  assumes sent: "http_calls (trace (snd (Get p serverURL w))) = http_calls (trace w) @ [req]"
      and resp: "fst (Do p (net w) req) = Inr \<lparr>StatusCode = 200, Body = FirstValue j\<rparr>"
  shows "(j \<notin> range JObject \<and> j \<noteq> JNull \<longrightarrow> fst (Get p serverURL w) = NotFound)
       \<and> (\<forall>ms key v. j = JObject ms \<and> (key, v) \<in> set ms \<and> matches_field key
              \<and> v \<notin> range JString \<and> v \<noteq> JNull
            \<longrightarrow> fst (Get p serverURL w) = NotFound)
       \<and> (\<forall>ms. j = JObject ms \<and> (\<forall>m \<in> set ms. \<not> matches_field (fst m))
            \<longrightarrow> fst (Get p serverURL w) = (''github_actions'', [], None))"
proof -
  note run = Get_sentD[OF sent]
  obtain n where do: "Do p (net w) (token_request w) =
      (Inr \<lparr>StatusCode = 200, Body = FirstValue j\<rparr>, n)"
    using resp run(1) by (cases "Do p (net w) (token_request w)") simp
  have result: "fst (Get p serverURL w) =
      (case snd (Decode (FirstValue j) \<lparr>Value = []\<rparr>) of
         Some e \<Rightarrow> NotFound
       | None \<Rightarrow> (''github_actions'', Value (fst (Decode (FirstValue j) \<lparr>Value = []\<rparr>)), None))"
    using Get_sent(1)[OF run(2) run(3) run(4) do, where serverURL = serverURL]
    by (simp split: option.split)
  have top: "fst (Get p serverURL w) = NotFound" if "j \<notin> range JObject" and "j \<noteq> JNull"
    using that result by (cases j) auto
  have member: "fst (Get p serverURL w) = NotFound"
    if "j = JObject ms" and "(key, v) \<in> set ms" and "matches_field key"
      and "v \<notin> range JString" and "v \<noteq> JNull" for ms key v
  proof -
    have "snd (object_members ms (\<lparr>Value = []\<rparr>, None)) \<noteq> None"
      using object_members_mismatch[OF that(2) that(3) that(4) that(5)] .
    then show ?thesis using result that(1) by auto
  qed
  have absent: "fst (Get p serverURL w) = (''github_actions'', [], None)"
    if "j = JObject ms" and "\<forall>m \<in> set ms. \<not> matches_field (fst m)" for ms
    using result that(1) object_members_no_field[OF that(2)] by simp
  show ?thesis
    using top member absent by blast
qed

theorem Get_schema_mismatch_witness:
  "fst (Get (example_platform (reply (Inr \<lparr>StatusCode = 200, Body = FirstValue (JArray [JString ''T''])\<rparr>)))
          ''https://registry.example.com'' (example_world test_env)) = NotFound
   \<and> fst (Get (example_platform
            (reply (Inr \<lparr>StatusCode = 200, Body = FirstValue (JObject [(''value'', JNumber ''1'')])\<rparr>)))
          ''https://registry.example.com'' (example_world test_env)) = NotFound
   \<and> fst (Get (example_platform
            (reply (Inr \<lparr>StatusCode = 200, Body = FirstValue (JObject [(''token'', JString ''T'')])\<rparr>)))
          ''https://registry.example.com'' (example_world test_env)) = (''github_actions'', [], None)"
proof -
  let ?w = "example_world test_env"
  let ?u = "''https://registry.example.com''"
  have sent: "http_calls (trace (snd (Get (example_platform (reply r)) ?u ?w)))
      = http_calls (trace ?w) @ [token_request ?w]" for r
    by (simp add: Get_calls example_defs)
  have resp: "fst (Do (example_platform (reply (Inr \<lparr>StatusCode = 200, Body = FirstValue j\<rparr>)))
      (net ?w) (token_request ?w)) = Inr \<lparr>StatusCode = 200, Body = FirstValue j\<rparr>" for j
    by (simp add: example_defs)
  have a: "fst (Get (example_platform (reply (Inr \<lparr>StatusCode = 200, Body = FirstValue (JArray [JString ''T''])\<rparr>)))
      ?u ?w) = NotFound"
    using Get_schema_mismatch[OF sent resp, of "JArray [JString ''T'']"] by auto
  have b: "fst (Get (example_platform
      (reply (Inr \<lparr>StatusCode = 200, Body = FirstValue (JObject [(''value'', JNumber ''1'')])\<rparr>))) ?u ?w)
      = NotFound"
    using Get_schema_mismatch[OF sent resp, of "JObject [(''value'', JNumber ''1'')]"]
    by (auto simp add: matches_field_def)
  have c: "fst (Get (example_platform
      (reply (Inr \<lparr>StatusCode = 200, Body = FirstValue (JObject [(''token'', JString ''T'')])\<rparr>))) ?u ?w)
      = (''github_actions'', [], None)"
    using Get_schema_mismatch[OF sent resp, of "JObject [(''token'', JString ''T'')]"]
    by (simp add: matches_field_def equalFold_def upper_def)
  show ?thesis using a b c by simp
qed

text \<open>
  Claim C4. With both required variables non-empty, the base URL \<open>B\<close> and the audience
  \<open>A\<close> of the environment, \<^verbatim>\<open>Get\<close> sends one request, the URL of which is \<open>B\<close> itself
  when \<open>A\<close> is empty or not set, and otherwise \<open>B\<close>, then \<^verbatim>\<open>&\<close> when \<open>B\<close> contains a
  \<^verbatim>\<open>?\<close> and \<^verbatim>\<open>?\<close> when it does not, then \<^verbatim>\<open>audience=\<close> and the query-escaped \<open>A\<close>
  (provided that URL parses, without which no request is made).
\<close>

theorem Get_request_URL:
  assumes B: "Getenv w ''ACTIONS_ID_TOKEN_REQUEST_URL'' = B" and url: "B \<noteq> []"
      and tok: "Getenv w ''ACTIONS_ID_TOKEN_REQUEST_TOKEN'' = tok" and token: "tok \<noteq> []"
      and A: "Getenv w ''ACTIONS_ID_TOKEN_REQUEST_AUDIENCE'' = A"
      and U: "U = (if A = [] then B
                  else if CHR ''?'' \<in> set B then B @ ''&'' @ ''audience='' @ QueryEscape A
                  else B @ ''?'' @ ''audience='' @ QueryEscape A)"
      and parse: "url_Parse p U = None"
  shows "http_calls (trace (snd (Get p serverURL w))) =
           http_calls (trace w) @
             [\<lparr>Method = ''GET'', URL = U,
               Header = [''Authorization'' \<mapsto> [''Bearer '' @ tok],
                         ''User-Agent'' \<mapsto> [''Docker-Credential-Helper-GitHubActionsOIDC'']]\<rparr>]"
proof -
  have built: "request_url w = U"
    using B A U by (simp add: request_url_def Contains_char)
  have request: "token_request w =
      \<lparr>Method = ''GET'', URL = U,
        Header = [''Authorization'' \<mapsto> [''Bearer '' @ tok],
                  ''User-Agent'' \<mapsto> [''Docker-Credential-Helper-GitHubActionsOIDC'']]\<rparr>"
    using built tok by (simp add: token_request_def)
  have url': "Getenv w ''ACTIONS_ID_TOKEN_REQUEST_URL'' \<noteq> []"
    and token': "Getenv w ''ACTIONS_ID_TOKEN_REQUEST_TOKEN'' \<noteq> []"
    and parse': "url_Parse p (request_url w) = None"
    using B url tok token parse built by simp_all
  obtain result n where do: "Do p (net w) (token_request w) = (result, n)"
    by (cases "Do p (net w) (token_request w)")
  show ?thesis
    using Get_sent(4)[OF url' token' parse' do, of serverURL] request by simp
qed

theorem Get_request_URL_witness:
  "map URL (http_calls (trace (snd (Get (example_platform (mock_server ''T''))
        ''https://registry.example.com'' (example_world audience_env)))))
     = [''http://127.0.0.1:8080?audience=https%3A%2F%2Fregistry.example.com'']
   \<and> map URL (http_calls (trace (snd (Get (example_platform (mock_server ''T''))
        ''https://registry.example.com''
        (example_world (audience_env(''ACTIONS_ID_TOKEN_REQUEST_URL'' \<mapsto>
            ''http://127.0.0.1:8080/token?api-version=2.0'')))))))
     = [''http://127.0.0.1:8080/token?api-version=2.0&audience=https%3A%2F%2Fregistry.example.com'']
   \<and> map URL (http_calls (trace (snd (Get (example_platform (mock_server ''T''))
        ''https://registry.example.com'' (example_world test_env)))))
     = [''http://127.0.0.1:8080'']"
proof -
  let ?p = "example_platform (mock_server ''T'')"
  let ?u = "''https://registry.example.com''"
  let ?w1 = "example_world audience_env"
  let ?w2 = "example_world (audience_env(''ACTIONS_ID_TOKEN_REQUEST_URL'' \<mapsto>
            ''http://127.0.0.1:8080/token?api-version=2.0''))"
  let ?w3 = "example_world test_env"
  let ?B1 = "''http://127.0.0.1:8080''"
  let ?B2 = "''http://127.0.0.1:8080/token?api-version=2.0''"
  let ?A = "''https://registry.example.com''"
  let ?U1 = "''http://127.0.0.1:8080?audience=https%3A%2F%2Fregistry.example.com''"
  let ?U2 = "''http://127.0.0.1:8080/token?api-version=2.0&audience=https%3A%2F%2Fregistry.example.com''"
  have escaped: "QueryEscape ?A = ''https%3A%2F%2Fregistry.example.com''"
    by (simp add: QueryEscape_def escape_byte_def shouldEscape_def upperhex_def)
  have nonempty: "?B1 \<noteq> []" "?B2 \<noteq> []" "''test-token'' \<noteq> []"
    by simp_all
  have env1: "Getenv ?w1 ''ACTIONS_ID_TOKEN_REQUEST_URL'' = ?B1"
      "Getenv ?w1 ''ACTIONS_ID_TOKEN_REQUEST_TOKEN'' = ''test-token''"
      "Getenv ?w1 ''ACTIONS_ID_TOKEN_REQUEST_AUDIENCE'' = ?A"
    by (simp_all add: example_defs)
  have env2: "Getenv ?w2 ''ACTIONS_ID_TOKEN_REQUEST_URL'' = ?B2"
      "Getenv ?w2 ''ACTIONS_ID_TOKEN_REQUEST_TOKEN'' = ''test-token''"
      "Getenv ?w2 ''ACTIONS_ID_TOKEN_REQUEST_AUDIENCE'' = ?A"
    by (simp_all add: example_defs)
  have env3: "Getenv ?w3 ''ACTIONS_ID_TOKEN_REQUEST_URL'' = ?B1"
      "Getenv ?w3 ''ACTIONS_ID_TOKEN_REQUEST_TOKEN'' = ''test-token''"
      "Getenv ?w3 ''ACTIONS_ID_TOKEN_REQUEST_AUDIENCE'' = []"
    by (simp_all add: example_defs)
  have U1: "?U1 = (if ?A = [] then ?B1
                  else if CHR ''?'' \<in> set ?B1 then ?B1 @ ''&'' @ ''audience='' @ QueryEscape ?A
                  else ?B1 @ ''?'' @ ''audience='' @ QueryEscape ?A)"
    by (simp add: escaped)
  have U2: "?U2 = (if ?A = [] then ?B2
                  else if CHR ''?'' \<in> set ?B2 then ?B2 @ ''&'' @ ''audience='' @ QueryEscape ?A
                  else ?B2 @ ''?'' @ ''audience='' @ QueryEscape ?A)"
    by (simp add: escaped)
  have U3: "?B1 = (if ([]::string) = [] then ?B1
                  else if CHR ''?'' \<in> set ?B1 then ?B1 @ ''&'' @ ''audience='' @ QueryEscape []
                  else ?B1 @ ''?'' @ ''audience='' @ QueryEscape [])"
    by simp
  have parse: "url_Parse ?p ?U1 = None" "url_Parse ?p ?U2 = None" "url_Parse ?p ?B1 = None"
    by (simp_all add: example_platform_def)
  have before: "trace ?w1 = []" "trace ?w2 = []" "trace ?w3 = []"
    by (simp_all add: example_world_def)
  show ?thesis
    using Get_request_URL[OF env1(1) nonempty(1) env1(2) nonempty(3) env1(3) U1 parse(1), of ?u]
      Get_request_URL[OF env2(1) nonempty(2) env2(2) nonempty(3) env2(3) U2 parse(2), of ?u]
      Get_request_URL[OF env3(1) nonempty(1) env3(2) nonempty(3) env3(3) U3 parse(3), of ?u]
      before
    by simp
qed

text \<open>
  Claim C6. \<^verbatim>\<open>Get\<close> returns the nil error or \<^verbatim>\<open>CredentialsNotFound\<close>, never another
  error; and each failure returns \<^verbatim>\<open>CredentialsNotFound\<close> with two empty strings: a
  required variable that is empty or not set, a request URL that does not parse, an
  exchange that fails, a status other than 200, a body that does not decode.
\<close>

theorem Get_only_NotFound:
  "snd (snd (fst (Get p serverURL w))) \<in> {None, Some ErrCredentialsNotFound}
   \<and> (Getenv w ''ACTIONS_ID_TOKEN_REQUEST_URL'' = [] \<or> Getenv w ''ACTIONS_ID_TOKEN_REQUEST_TOKEN'' = []
        \<longrightarrow> fst (Get p serverURL w) = NotFound)
   \<and> (\<forall>e. url_Parse p (request_url w) = Some e \<longrightarrow> fst (Get p serverURL w) = NotFound)
   \<and> (\<forall>e. fst (Do p (net w) (token_request w)) = Inl e \<longrightarrow> fst (Get p serverURL w) = NotFound)
   \<and> (\<forall>resp. fst (Do p (net w) (token_request w)) = Inr resp \<and> StatusCode resp \<noteq> 200
        \<longrightarrow> fst (Get p serverURL w) = NotFound)
   \<and> (\<forall>resp e. fst (Do p (net w) (token_request w)) = Inr resp
          \<and> snd (Decode (Body resp) \<lparr>Value = []\<rparr>) = Some e
        \<longrightarrow> fst (Get p serverURL w) = NotFound)"
proof -
  have kind: "snd (snd (fst (Get p serverURL w))) \<in> {None, Some ErrCredentialsNotFound}"
    by (simp add: Get_fst split: option.split sum.split)
  have env: "fst (Get p serverURL w) = NotFound"
    if "Getenv w ''ACTIONS_ID_TOKEN_REQUEST_URL'' = [] \<or> Getenv w ''ACTIONS_ID_TOKEN_REQUEST_TOKEN'' = []"
    using Get_missing(1)[OF that] .
  have construct: "fst (Get p serverURL w) = NotFound"
    if "url_Parse p (request_url w) = Some e" for e
    using that by (simp add: Get_fst)
  have network: "fst (Get p serverURL w) = NotFound"
    if "fst (Do p (net w) (token_request w)) = Inl e" for e
    using that by (simp add: Get_fst split: option.split)
  have status: "fst (Get p serverURL w) = NotFound"
    if "fst (Do p (net w) (token_request w)) = Inr resp" and "StatusCode resp \<noteq> 200" for resp
    using that by (simp add: Get_fst split: option.split)
  have decode: "fst (Get p serverURL w) = NotFound"
    if "fst (Do p (net w) (token_request w)) = Inr resp"
      and "snd (Decode (Body resp) \<lparr>Value = []\<rparr>) = Some e" for resp e
    using that by (simp add: Get_fst split: option.split)
  show ?thesis
    using kind env construct network status decode by blast
qed

theorem Get_only_NotFound_witness:
  "fst (Get (example_platform (mock_server ''T'')) ''https://registry.example.com''
          (example_world Map.empty)) = NotFound
   \<and> fst (Get (example_platform (mock_server ''T'')) ''https://registry.example.com''
          (example_world [''ACTIONS_ID_TOKEN_REQUEST_URL'' \<mapsto> ''http://127.0.0.1:8080/'' @ [CHR 0x7F],
                          ''ACTIONS_ID_TOKEN_REQUEST_TOKEN'' \<mapsto> ''test-token''])) = NotFound
   \<and> fst (Get (example_platform (reply (Inl (LibraryError ''connection refused''))))
          ''https://registry.example.com'' (example_world test_env)) = NotFound
   \<and> fst (Get (example_platform (reply (Inr \<lparr>StatusCode = 401, Body = NoValue SyntaxError\<rparr>)))
          ''https://registry.example.com'' (example_world test_env)) = NotFound
   \<and> fst (Get (example_platform (reply (Inr \<lparr>StatusCode = 200, Body = NoValue SyntaxError\<rparr>)))
          ''https://registry.example.com'' (example_world test_env)) = NotFound"
proof -
  let ?u = "''https://registry.example.com''"
  let ?w = "example_world test_env"
  let ?ctl = "example_world [''ACTIONS_ID_TOKEN_REQUEST_URL'' \<mapsto> ''http://127.0.0.1:8080/'' @ [CHR 0x7F],
                          ''ACTIONS_ID_TOKEN_REQUEST_TOKEN'' \<mapsto> ''test-token'']"
  have env: "Getenv (example_world Map.empty) ''ACTIONS_ID_TOKEN_REQUEST_URL'' = []
      \<or> Getenv (example_world Map.empty) ''ACTIONS_ID_TOKEN_REQUEST_TOKEN'' = []"
    by (simp add: example_defs)
  have construct: "url_Parse (example_platform (mock_server ''T'')) (request_url ?ctl)
      = Some (LibraryError ''net/url: invalid control character in URL'')"
    by (simp add: example_defs)
  have network: "fst (Do (example_platform (reply (Inl (LibraryError ''connection refused''))))
      (net ?w) (token_request ?w)) = Inl (LibraryError ''connection refused'')"
    by (simp add: example_platform_def reply_def)
  have status: "fst (Do (example_platform (reply (Inr \<lparr>StatusCode = 401, Body = NoValue SyntaxError\<rparr>)))
        (net ?w) (token_request ?w)) = Inr \<lparr>StatusCode = 401, Body = NoValue SyntaxError\<rparr>
      \<and> StatusCode \<lparr>StatusCode = 401, Body = NoValue SyntaxError\<rparr> \<noteq> 200"
    by (simp add: example_platform_def reply_def)
  have decode: "fst (Do (example_platform (reply (Inr \<lparr>StatusCode = 200, Body = NoValue SyntaxError\<rparr>)))
        (net ?w) (token_request ?w)) = Inr \<lparr>StatusCode = 200, Body = NoValue SyntaxError\<rparr>
      \<and> snd (Decode (Body \<lparr>StatusCode = 200, Body = NoValue SyntaxError\<rparr>) \<lparr>Value = []\<rparr>)
          = Some SyntaxError"
    by (simp add: example_platform_def reply_def)
  have a: "fst (Get (example_platform (mock_server ''T'')) ?u (example_world Map.empty)) = NotFound"
    using env Get_only_NotFound[of "example_platform (mock_server ''T'')" ?u "example_world Map.empty"]
    by blast
  have b: "fst (Get (example_platform (mock_server ''T'')) ?u ?ctl) = NotFound"
    using construct Get_only_NotFound[of "example_platform (mock_server ''T'')" ?u ?ctl]
    by blast
  have c: "fst (Get (example_platform (reply (Inl (LibraryError ''connection refused'')))) ?u ?w)
      = NotFound"
    using network
      Get_only_NotFound[of "example_platform (reply (Inl (LibraryError ''connection refused'')))" ?u ?w]
    by blast
  have d: "fst (Get (example_platform (reply (Inr \<lparr>StatusCode = 401, Body = NoValue SyntaxError\<rparr>)))
      ?u ?w) = NotFound"
    using status
      Get_only_NotFound[of "example_platform (reply (Inr \<lparr>StatusCode = 401, Body = NoValue SyntaxError\<rparr>))"
        ?u ?w]
    by blast
  have e: "fst (Get (example_platform (reply (Inr \<lparr>StatusCode = 200, Body = NoValue SyntaxError\<rparr>)))
      ?u ?w) = NotFound"
    using decode
      Get_only_NotFound[of "example_platform (reply (Inr \<lparr>StatusCode = 200, Body = NoValue SyntaxError\<rparr>))"
        ?u ?w]
    by blast
  show ?thesis using a b c d e by simp
qed

text \<open>
  Claim C10. Whenever \<^verbatim>\<open>Get\<close> returns a non-nil error, the user name and the secret it
  returns are both empty.
\<close>

theorem Get_error_empty_strings:
  assumes "snd (snd (fst (Get p serverURL w))) \<noteq> None"
  shows "fst (fst (Get p serverURL w)) = [] \<and> fst (snd (fst (Get p serverURL w))) = []"
  using assms unfolding Get_fst
  by (simp split: option.splits sum.splits if_splits)

theorem Get_error_empty_strings_witness:
  "Value (fst (Decode (FirstValue (JObject [(''value'', JString ''T''), (''value'', JNumber ''1'')]))
          \<lparr>Value = []\<rparr>)) = ''T''
   \<and> snd (snd (fst (Get (example_platform (reply (Inr \<lparr>StatusCode = 200,
             Body = FirstValue (JObject [(''value'', JString ''T''), (''value'', JNumber ''1'')])\<rparr>)))
          ''https://registry.example.com'' (example_world test_env)))) \<noteq> None
   \<and> fst (fst (Get (example_platform (reply (Inr \<lparr>StatusCode = 200,
             Body = FirstValue (JObject [(''value'', JString ''T''), (''value'', JNumber ''1'')])\<rparr>)))
          ''https://registry.example.com'' (example_world test_env))) = []
   \<and> fst (snd (fst (Get (example_platform (reply (Inr \<lparr>StatusCode = 200,
             Body = FirstValue (JObject [(''value'', JString ''T''), (''value'', JNumber ''1'')])\<rparr>)))
          ''https://registry.example.com'' (example_world test_env)))) = []"
proof -
  let ?p = "example_platform (reply (Inr \<lparr>StatusCode = 200,
             Body = FirstValue (JObject [(''value'', JString ''T''), (''value'', JNumber ''1'')])\<rparr>))"
  let ?w = "example_world test_env"
  have stored: "Value (fst (Decode (FirstValue (JObject [(''value'', JString ''T''), (''value'', JNumber ''1'')]))
          \<lparr>Value = []\<rparr>)) = ''T''"
    by (simp add: matches_field_def)
  have failed: "snd (snd (fst (Get ?p ''https://registry.example.com'' ?w))) \<noteq> None"
    by (simp add: Get_fst example_defs matches_field_def)
  show ?thesis
    using stored failed Get_error_empty_strings[OF failed] by simp
qed

subsection \<open>Claims about the four operations\<close>

text \<open>
  Claim C7, as stated, fails for one input of \<^verbatim>\<open>Add\<close>: on the nil pointer it panics
  and returns nothing.
\<close>

theorem Add_nil_counterexample:
  "fst (Add (example_platform (mock_server ''T'')) None (example_world test_env))
     = Inl NilPointerDereference"
  by (simp add: Add_def)

text \<open>
  Claim C7, amended. On every pointer to a credentials value \<^verbatim>\<open>Add\<close> returns the nil
  error, and on every input so do \<^verbatim>\<open>Delete\<close> and \<^verbatim>\<open>List\<close>; \<^verbatim>\<open>List\<close> returns the nil
  map, in which no key has a value. None of them keeps anything: the environment and the
  network are as before, and the one thing each does is to write one log line.
\<close>

theorem noop_operations:
  "fst (Add p (Some creds) w) = Inr None
   \<and> fst (Delete p serverURL w) = None
   \<and> fst (List p w) = (None, None)
   \<and> (\<forall>key. map_index (fst (fst (List p w))) key = None)
   \<and> environ (snd (Add p (Some creds) w)) = environ w \<and> net (snd (Add p (Some creds) w)) = net w
   \<and> (\<exists>line. trace (snd (Add p (Some creds) w)) = trace w @ [EvWrite line])
   \<and> environ (snd (Delete p serverURL w)) = environ w \<and> net (snd (Delete p serverURL w)) = net w
   \<and> (\<exists>line. trace (snd (Delete p serverURL w)) = trace w @ [EvWrite line])
   \<and> environ (snd (List p w)) = environ w \<and> net (snd (List p w)) = net w
   \<and> (\<exists>line. trace (snd (List p w)) = trace w @ [EvWrite line])"
  by (simp add: Add_def Delete_def List_def map_index_def environ_logf net_logf trace_logf)

theorem noop_operations_witness:
  "fst (Add (example_platform (mock_server ''T''))
          (Some \<lparr>ServerURL = ''https://registry.example.com'', Username = ''testuser'',
                 Secret = ''testpassword''\<rparr>) (example_world test_env)) = Inr None
   \<and> fst (Delete (example_platform (mock_server ''T'')) ''https://registry.example.com''
          (example_world test_env)) = None
   \<and> fst (List (example_platform (mock_server ''T'')) (example_world test_env)) = (None, None)
   \<and> LogFile (snd (List (example_platform (mock_server ''T'')) (example_world test_env)))
       = Some [''2025-01-01T00:00:00Z: Listing credentials'' @ [CHR 0x0A]]"
proof -
  have line: "LogFile (snd (List (example_platform (mock_server ''T'')) (example_world test_env)))
       = Some [''2025-01-01T00:00:00Z: Listing credentials'' @ [CHR 0x0A]]"
    by (simp add: List_def logf_def Let_def example_platform_def example_world_def)
  show ?thesis
    using line
      noop_operations[where p = "example_platform (mock_server ''T'')"
        and creds = "\<lparr>ServerURL = ''https://registry.example.com'', Username = ''testuser'',
           Secret = ''testpassword''\<rparr>"
        and w = "example_world test_env" and serverURL = "''https://registry.example.com''"]
    by simp
qed

text \<open>
  Claim C8. The result of \<^verbatim>\<open>Get\<close> is determined by the three environment values and
  the answer of the endpoint to the request: two runs in worlds that agree on these
  return the same result, and so does a second call that follows a first one when the
  endpoint answers the request as it did the first time.
\<close>

theorem Get_deterministic:
  "(Getenv w' ''ACTIONS_ID_TOKEN_REQUEST_URL'' = Getenv w ''ACTIONS_ID_TOKEN_REQUEST_URL''
      \<and> Getenv w' ''ACTIONS_ID_TOKEN_REQUEST_TOKEN'' = Getenv w ''ACTIONS_ID_TOKEN_REQUEST_TOKEN''
      \<and> Getenv w' ''ACTIONS_ID_TOKEN_REQUEST_AUDIENCE'' = Getenv w ''ACTIONS_ID_TOKEN_REQUEST_AUDIENCE''
      \<and> fst (Do p (net w') (token_request w)) = fst (Do p (net w) (token_request w))
     \<longrightarrow> fst (Get p serverURL w') = fst (Get p serverURL w))
   \<and> (fst (Do p (net (snd (Get p serverURL w))) (token_request w))
        = fst (Do p (net w) (token_request w))
     \<longrightarrow> fst (Get p serverURL (snd (Get p serverURL w))) = fst (Get p serverURL w))"
proof -
  have general: "fst (Get p serverURL w') = fst (Get p serverURL w)"
    if env: "Getenv w' ''ACTIONS_ID_TOKEN_REQUEST_URL'' = Getenv w ''ACTIONS_ID_TOKEN_REQUEST_URL''"
      "Getenv w' ''ACTIONS_ID_TOKEN_REQUEST_TOKEN'' = Getenv w ''ACTIONS_ID_TOKEN_REQUEST_TOKEN''"
      "Getenv w' ''ACTIONS_ID_TOKEN_REQUEST_AUDIENCE'' = Getenv w ''ACTIONS_ID_TOKEN_REQUEST_AUDIENCE''"
      and endpoint: "fst (Do p (net w') (token_request w)) = fst (Do p (net w) (token_request w))"
    for w' :: "('a, 'b) world"
  proof -
    have url: "request_url w' = request_url w"
      by (simp add: request_url_def env)
    have req: "token_request w' = token_request w"
      by (simp add: token_request_def url env)
    show ?thesis
      unfolding Get_fst url req env endpoint ..
  qed
  have sequential: "fst (Get p serverURL (snd (Get p serverURL w))) = fst (Get p serverURL w)"
    if "fst (Do p (net (snd (Get p serverURL w))) (token_request w))
        = fst (Do p (net w) (token_request w))"
    using that by (intro general) (simp_all add: Getenv_def Get_environ)
  show ?thesis
    using general sequential by blast
qed

theorem Get_deterministic_witness:
  "net (snd (Get (example_platform (mock_server ''T'')) ''https://registry.example.com''
          (example_world test_env))) = Suc (net (example_world test_env))
   \<and> fst (Get (example_platform (mock_server ''T'')) ''https://registry.example.com''
          (example_world test_env)) = (''github_actions'', ''T'', None)
   \<and> fst (Get (example_platform (mock_server ''T'')) ''https://registry.example.com''
          (snd (Get (example_platform (mock_server ''T'')) ''https://registry.example.com''
             (example_world test_env)))) = (''github_actions'', ''T'', None)
   \<and> fst (Get (example_platform (mock_server ''T'')) ''https://registry.example.com''
          ((example_world test_env)\<lparr>LogFile := None, ticks := 7, net := 5\<rparr>))
       = (''github_actions'', ''T'', None)"
proof -
  let ?p = "example_platform (mock_server ''T'')"
  let ?u = "''https://registry.example.com''"
  let ?w = "example_world test_env"
  let ?w' = "(example_world test_env)\<lparr>LogFile := None, ticks := 7, net := 5\<rparr>"
  have first: "fst (Get ?p ?u ?w) = (''github_actions'', ''T'', None)"
    by (simp add: Get_fst example_defs matches_field_def)
  have after: "net (snd (Get ?p ?u ?w)) = Suc (net ?w)"
    by (simp add: Get_net example_defs)
  have again: "fst (Do ?p (net (snd (Get ?p ?u ?w))) (token_request ?w))
      = fst (Do ?p (net ?w) (token_request ?w))"
    by (simp add: example_platform_def mock_server_def)
  have other: "Getenv ?w' ''ACTIONS_ID_TOKEN_REQUEST_URL'' = Getenv ?w ''ACTIONS_ID_TOKEN_REQUEST_URL''
      \<and> Getenv ?w' ''ACTIONS_ID_TOKEN_REQUEST_TOKEN'' = Getenv ?w ''ACTIONS_ID_TOKEN_REQUEST_TOKEN''
      \<and> Getenv ?w' ''ACTIONS_ID_TOKEN_REQUEST_AUDIENCE'' = Getenv ?w ''ACTIONS_ID_TOKEN_REQUEST_AUDIENCE''
      \<and> fst (Do ?p (net ?w') (token_request ?w)) = fst (Do ?p (net ?w) (token_request ?w))"
    by (simp add: Getenv_def example_platform_def mock_server_def)
  have second: "fst (Get ?p ?u (snd (Get ?p ?u ?w))) = fst (Get ?p ?u ?w)"
    using again Get_deterministic[where w' = ?w and w = ?w and p = ?p and serverURL = ?u] by blast
  have third: "fst (Get ?p ?u ?w') = fst (Get ?p ?u ?w)"
    using other Get_deterministic[where w' = ?w' and w = ?w and p = ?p and serverURL = ?u] by blast
  show ?thesis
    using first after second third by simp
qed

text \<open>
  Claim C9. What the log file does has no part in what an operation returns: with any
  other behaviour of \<^verbatim>\<open>WriteString\<close> (one that fails, for one) and any other log file
  (the nil file, for one), each of the four operations returns what it returns with the
  given ones; and \<^verbatim>\<open>Get\<close> sends the same request and leaves the network in the same
  state.
\<close>

theorem log_sink_irrelevant:
  "fst (Add (p\<lparr>WriteString := wr\<rparr>) creds (w\<lparr>LogFile := lf\<rparr>)) = fst (Add p creds w)
   \<and> fst (Delete (p\<lparr>WriteString := wr\<rparr>) serverURL (w\<lparr>LogFile := lf\<rparr>)) = fst (Delete p serverURL w)
   \<and> fst (List (p\<lparr>WriteString := wr\<rparr>) (w\<lparr>LogFile := lf\<rparr>)) = fst (List p w)
   \<and> fst (Get (p\<lparr>WriteString := wr\<rparr>) serverURL (w\<lparr>LogFile := lf\<rparr>)) = fst (Get p serverURL w)
   \<and> http_calls (trace (snd (Get (p\<lparr>WriteString := wr\<rparr>) serverURL (w\<lparr>LogFile := lf\<rparr>))))
       = http_calls (trace (snd (Get p serverURL w)))
   \<and> net (snd (Get (p\<lparr>WriteString := wr\<rparr>) serverURL (w\<lparr>LogFile := lf\<rparr>)))
       = net (snd (Get p serverURL w))"
proof -
  have env: "Getenv (w\<lparr>LogFile := lf\<rparr>) key = Getenv w key" for key
    by (simp add: Getenv_def)
  have url: "request_url (w\<lparr>LogFile := lf\<rparr>) = request_url w"
    by (simp add: request_url_def env)
  have req: "token_request (w\<lparr>LogFile := lf\<rparr>) = token_request w"
    by (simp add: token_request_def url env)
  have lib: "url_Parse (p\<lparr>WriteString := wr\<rparr>) = url_Parse p" "Do (p\<lparr>WriteString := wr\<rparr>) = Do p"
    "net (w\<lparr>LogFile := lf\<rparr>) = net w" "trace (w\<lparr>LogFile := lf\<rparr>) = trace w"
    by simp_all
  have ops: "fst (Add (p\<lparr>WriteString := wr\<rparr>) creds (w\<lparr>LogFile := lf\<rparr>)) = fst (Add p creds w)"
    "fst (Delete (p\<lparr>WriteString := wr\<rparr>) serverURL (w\<lparr>LogFile := lf\<rparr>)) = fst (Delete p serverURL w)"
    "fst (List (p\<lparr>WriteString := wr\<rparr>) (w\<lparr>LogFile := lf\<rparr>)) = fst (List p w)"
    by (simp_all add: Add_def Delete_def List_def split: option.split)
  have result: "fst (Get (p\<lparr>WriteString := wr\<rparr>) serverURL (w\<lparr>LogFile := lf\<rparr>)) = fst (Get p serverURL w)"
    unfolding Get_fst url req env lib ..
  have calls: "http_calls (trace (snd (Get (p\<lparr>WriteString := wr\<rparr>) serverURL (w\<lparr>LogFile := lf\<rparr>))))
       = http_calls (trace (snd (Get p serverURL w)))"
    unfolding Get_calls url req env lib ..
  have network: "net (snd (Get (p\<lparr>WriteString := wr\<rparr>) serverURL (w\<lparr>LogFile := lf\<rparr>)))
       = net (snd (Get p serverURL w))"
    unfolding Get_net url req env lib ..
  show ?thesis
    using ops result calls network by simp
qed

theorem log_sink_irrelevant_witness:
  "fst (Get ((example_platform (mock_server ''T''))\<lparr>WriteString := failing_WriteString\<rparr>)
          ''https://registry.example.com'' ((example_world test_env)\<lparr>LogFile := Some []\<rparr>))
     = (''github_actions'', ''T'', None)
   \<and> fst (Get ((example_platform (mock_server ''T''))\<lparr>WriteString := failing_WriteString\<rparr>)
          ''https://registry.example.com'' ((example_world test_env)\<lparr>LogFile := None\<rparr>))
     = (''github_actions'', ''T'', None)
   \<and> fst (Add ((example_platform (mock_server ''T''))\<lparr>WriteString := failing_WriteString\<rparr>)
          (Some \<lparr>ServerURL = ''https://registry.example.com'', Username = ''testuser'',
                 Secret = ''testpassword''\<rparr>)
          ((example_world test_env)\<lparr>LogFile := None\<rparr>)) = Inr None"
proof -
  let ?p = "example_platform (mock_server ''T'')"
  let ?u = "''https://registry.example.com''"
  let ?w = "example_world test_env"
  let ?c = "Some \<lparr>ServerURL = ''https://registry.example.com'', Username = ''testuser'',
           Secret = ''testpassword''\<rparr>"
  have working: "fst (Get ?p ?u ?w) = (''github_actions'', ''T'', None)"
    by (simp add: Get_fst example_defs matches_field_def)
  have add: "fst (Add ?p ?c ?w) = Inr None"
    by (simp add: Add_def)
  show ?thesis
    using working add
      log_sink_irrelevant[where p = ?p and wr = failing_WriteString and creds = ?c and w = ?w
        and lf = "Some []" and serverURL = ?u]
      log_sink_irrelevant[where p = ?p and wr = failing_WriteString and creds = ?c and w = ?w
        and lf = None and serverURL = ?u]
    by simp
qed

end
